theory Spec2Isabelle
  imports Main
begin

section \<open>The syntax tree the plugin reads and builds\<close>

text \<open>
  The plugin \<^verbatim>\<open>reactClientReferencesPlugin\<close> is a Babel visitor on the \<^verbatim>\<open>Program\<close> node.
  It exists twice in the repository: as the TypeScript source
  \<^verbatim>\<open>client-module-proxy-plugin.ts\<close> and as a compiled JavaScript file. Both are embedded
  below, \<open>Program_ts\<close> and \<open>Program_js\<close>.

  Only the fragment of Babel's tree that the plugin inspects or builds is modelled.
  Expressions and binding patterns share one type, as \<^verbatim>\<open>Identifier\<close> belongs to both in
  Babel. The constructors are Babel's node types and double as the builders
  \<^verbatim>\<open>t.identifier\<close>, \<^verbatim>\<open>t.callExpression\<close>, ...; \<^verbatim>\<open>t.memberExpression\<close> with two arguments
  builds a node with \<^verbatim>\<open>computed = false\<close>.
\<close>

datatype expression =
    Identifier string
  | StringLiteral string
  | NullLiteral
  | MemberExpression expression expression bool
  | CallExpression expression "expression list"
  | AssignmentExpression string expression expression
  | BinaryExpression string expression expression
  | UnaryExpression string expression
  | ArrowFunctionExpression "expression list" statement
  | ObjectPattern "(expression \<times> expression) list"
  | ArrayPattern "expression option list"
and statement =
    ExpressionStatement expression
  | BlockStatement "statement list"
  | IfStatement expression statement "statement option"
  | ForInStatement declarationNode expression statement
  | Declaration declarationNode
and declarationNode =
    VariableDeclaration string "variableDeclarator list"
  | FunctionDeclaration expression "expression list" statement
  | ClassDeclaration expression "expression option" "classMethod list"
and variableDeclarator =
    VariableDeclarator expression "expression option"
and classMethod =
    ClassMethod expression "expression list" statement

text \<open>
  Export declarations are module items: the grammar admits them at the top level of a
  module only, so they are kept out of \<open>statement\<close>. The three specifier nodes all carry
  an \<^verbatim>\<open>exported\<close> child, an \<^verbatim>\<open>Identifier\<close> or (for \<^verbatim>\<open>export { a as "b" }\<close>) a
  \<^verbatim>\<open>StringLiteral\<close>.
\<close>

datatype exportSpecifier =
    ExportSpecifier expression expression
  | ExportNamespaceSpecifier expression
  | ExportDefaultSpecifier expression

datatype defaultExport =
    DefaultDeclaration declarationNode
  | DefaultExpression expression

datatype moduleItem =
    ExportNamedDeclaration "declarationNode option" "exportSpecifier list" "string option"
  | ExportDefaultDeclaration "defaultExport option"
  | ExportAllDeclaration string
  | ImportDeclaration string
  | Statement statement

datatype directiveLiteral = DirectiveLiteral string

datatype directive = Directive directiveLiteral

record position =
  line :: nat
  column :: nat

record sourceLocation =
  loc_start :: position
  loc_end :: position

text \<open>\<^verbatim>\<open>path.node\<close>: the \<^verbatim>\<open>Program\<close> node.\<close>

record program =
  body :: "moduleItem list"
  directives :: "directive list"
  loc :: "sourceLocation option"

text \<open>
  The value stored under \<^verbatim>\<open>state.file.metadata['clientReferences']\<close>. An element of
  \<open>exports\<close> is what \<^verbatim>\<open>.name\<close> read off a node: \<open>Some n\<close> for a string, \<open>None\<close> for
  JavaScript's \<^verbatim>\<open>undefined\<close>.
\<close>

record clientReferences =
  entryPoint :: string
  exports :: "string option list"

datatype metadataValue =
    ClientReferences clientReferences
  | OtherMetadata string

text \<open>
  What the visitor can reach and mutate: the node behind \<^verbatim>\<open>path\<close>,
  \<^verbatim>\<open>state.file.opts.filename\<close> (\<open>None\<close> when it is \<^verbatim>\<open>undefined\<close> or \<^verbatim>\<open>null\<close>) and
  \<^verbatim>\<open>state.file.metadata\<close>, an object used as a dictionary.
\<close>

record pass_state =
  node :: program
  filename :: "string option"
  metadata :: "string \<rightharpoonup> metadataValue"

text \<open>
  The two \<^verbatim>\<open>throw\<close> statements. \<^verbatim>\<open>path.buildCodeFrameError\<close> is Babel's; it builds an
  error that points at the node's source location.
\<close>

datatype error =
    CodeFrameError "sourceLocation option" string
  | Error string

text \<open>
  A visitor call either returns or throws. Mutations made before a \<^verbatim>\<open>throw\<close> stay, so
  the state is part of the result in both cases.
\<close>

datatype outcome = Returned | Threw error

section \<open>The visitor\<close>

definition reactServerAdapter :: string where
  "reactServerAdapter = ''react-server-dom-webpack/server''"

fun directive_value :: "directive \<Rightarrow> string" where
  "directive_value (Directive (DirectiveLiteral v)) = v"

definition isUseClient :: "program \<Rightarrow> bool" where
  "isUseClient p = list_ex (\<lambda>d. directive_value d = ''use client'') (directives p)"

definition isUseServer :: "program \<Rightarrow> bool" where
  "isUseServer p = list_ex (\<lambda>d. directive_value d = ''use server'') (directives p)"

definition buildCodeFrameError :: "program \<Rightarrow> string \<Rightarrow> error" where
  "buildCodeFrameError p msg = CodeFrameError (loc p) msg"

definition conflict_message :: string where
  "conflict_message =
     ''It's not possible to have both `use client` and `use server` directives in the same file.''"

definition filename_message :: string where
  "filename_message = ''[Babel] Expected a filename to be set in the state''"

subsection \<open>Collecting the exports\<close>

text \<open>
  \<^verbatim>\<open>x.name\<close> for a node \<open>x\<close>: only an \<^verbatim>\<open>Identifier\<close> has the property; on every other
  node the read gives \<^verbatim>\<open>undefined\<close>.
\<close>

fun node_name :: "expression \<Rightarrow> string option" where
  "node_name (Identifier n) = Some n"
| "node_name _ = None"

fun declarator_id :: "variableDeclarator \<Rightarrow> expression" where
  "declarator_id (VariableDeclarator i _) = i"

fun exported :: "exportSpecifier \<Rightarrow> expression" where
  "exported (ExportSpecifier _ e) = e"
| "exported (ExportNamespaceSpecifier e) = e"
| "exported (ExportDefaultSpecifier e) = e"

text \<open>
  The two visitor functions handed to \<^verbatim>\<open>path.traverse\<close>, each returning what it pushes
  onto \<^verbatim>\<open>exports\<close>. \<^verbatim>\<open>node.specifiers\<close> is an array on every \<^verbatim>\<open>ExportNamedDeclaration\<close>,
  hence truthy.
\<close>

fun visit_ExportNamedDeclaration ::
  "declarationNode option \<Rightarrow> exportSpecifier list \<Rightarrow> string option list" where
  "visit_ExportNamedDeclaration (Some (VariableDeclaration k ds)) specs =
     map (\<lambda>d. node_name (declarator_id d)) ds"
| "visit_ExportNamedDeclaration (Some (FunctionDeclaration i ps b)) specs = [node_name i]"
| "visit_ExportNamedDeclaration (Some (ClassDeclaration i superClass ms)) specs = [node_name i]"
| "visit_ExportNamedDeclaration None specs = map (\<lambda>s. node_name (exported s)) specs"

fun visit_ExportDefaultDeclaration :: "defaultExport option \<Rightarrow> string option list" where
  "visit_ExportDefaultDeclaration (Some d) = [Some ''default'']"
| "visit_ExportDefaultDeclaration None = []"

fun visit :: "moduleItem \<Rightarrow> string option list" where
  "visit (ExportNamedDeclaration d specs src) = visit_ExportNamedDeclaration d specs"
| "visit (ExportDefaultDeclaration d) = visit_ExportDefaultDeclaration d"
| "visit (ExportAllDeclaration src) = []"
| "visit (ImportDeclaration src) = []"
| "visit (Statement s) = []"

text \<open>
  \<^verbatim>\<open>path.traverse\<close> walks the tree in source order and calls the visitors on the export
  declarations it meets; these are items of \<^verbatim>\<open>Program.body\<close>. The array \<^verbatim>\<open>exports\<close>
  starts empty and grows by \<^verbatim>\<open>push\<close>.
\<close>

definition traverse_exports :: "moduleItem list \<Rightarrow> string option list" where
  "traverse_exports items = foldl (\<lambda>exports item. exports @ visit item) [] items"

subsection \<open>The generated statements\<close>

definition module_exports :: expression where
  "module_exports = MemberExpression (Identifier ''module'') (Identifier ''exports'') False"

text \<open>
  \<^verbatim>\<open>module.exports = require('react-server-dom-webpack/server').createClientModuleProxy(outputKey)\<close>
\<close>

definition clientModuleProxy :: "string \<Rightarrow> statement" where
  "clientModuleProxy outputKey =
     ExpressionStatement
       (AssignmentExpression ''=''
          module_exports
          (CallExpression
             (MemberExpression
                (CallExpression (Identifier ''require'') [StringLiteral reactServerAdapter])
                (Identifier ''createClientModuleProxy'') False)
             [StringLiteral outputKey]))"

definition mmexp :: expression where
  "mmexp =
     MemberExpression
       (CallExpression (Identifier ''require'') [StringLiteral reactServerAdapter])
       (Identifier ''registerServerReference'') False"

definition loopBody :: "string \<Rightarrow> statement" where
  "loopBody outputKey =
     BlockStatement
       [IfStatement
          (BinaryExpression ''===''
             (UnaryExpression ''typeof'' (MemberExpression module_exports (Identifier ''key'') True))
             (StringLiteral ''function''))
          (ExpressionStatement
             (CallExpression mmexp
                [MemberExpression module_exports (Identifier ''key'') True,
                 StringLiteral outputKey,
                 Identifier ''key'']))
          None]"

definition forInStatement :: "string \<Rightarrow> statement" where
  "forInStatement outputKey =
     ForInStatement
       (VariableDeclaration ''const'' [VariableDeclarator (Identifier ''key'') None])
       module_exports
       (loopBody outputKey)"

definition serverReferenceWrapper :: "string \<Rightarrow> statement" where
  "serverReferenceWrapper outputKey =
     ExpressionStatement
       (CallExpression
          (ArrowFunctionExpression []
             (BlockStatement
                [IfStatement
                   (BinaryExpression ''===''
                      (UnaryExpression ''typeof'' module_exports)
                      (StringLiteral ''function''))
                   (BlockStatement
                      [ExpressionStatement
                         (CallExpression mmexp
                            [module_exports, StringLiteral outputKey, NullLiteral])])
                   (Some (BlockStatement [forInStatement outputKey]))]))
          [])"

subsection \<open>The two copies of the \<^verbatim>\<open>Program\<close> visitor\<close>

text \<open>
  \<^verbatim>\<open>path.pushContainer('body', s)\<close> appends \<open>s\<close> to the node's \<^verbatim>\<open>body\<close>.
\<close>

definition pushContainer_body :: "statement \<Rightarrow> pass_state \<Rightarrow> pass_state" where
  "pushContainer_body s st = st\<lparr>node := (node st)\<lparr>body := body (node st) @ [Statement s]\<rparr>\<rparr>"

definition set_clientReferences :: "string \<Rightarrow> string option list \<Rightarrow> pass_state \<Rightarrow> pass_state" where
  "set_clientReferences outputKey exps st =
     st\<lparr>metadata := (metadata st)(''clientReferences'' \<mapsto>
           ClientReferences \<lparr>entryPoint = outputKey, exports = exps\<rparr>)\<rparr>"

definition clear_body_and_directives :: "pass_state \<Rightarrow> pass_state" where
  "clear_body_and_directives st = st\<lparr>node := (node st)\<lparr>body := [], directives := []\<rparr>\<rparr>"

text \<open>
  The TypeScript source. Its two inputs from outside the repository are parameters:
  \<open>href\<close> stands for \<^verbatim>\<open>(p) => url.pathToFileURL(p).href\<close> of Node.js, and \<open>isServer\<close> for
  \<^verbatim>\<open>api.caller(getIsReactServer)\<close>. \<^verbatim>\<open>!filePath\<close> holds for a filename that is not set and
  for the empty string. The call of \<^verbatim>\<open>debug\<close> only logs and is left out.
\<close>

definition Program_ts :: "(string \<Rightarrow> string) \<Rightarrow> bool \<Rightarrow> pass_state \<Rightarrow> outcome \<times> pass_state" where
  "Program_ts href isServer st =
     (if isUseClient (node st) \<and> isUseServer (node st) then
        (Threw (buildCodeFrameError (node st) conflict_message), st)
      else
        case filename st of
          None \<Rightarrow> (Threw (Error filename_message), st)
        | Some filePath \<Rightarrow>
            if filePath = [] then (Threw (Error filename_message), st)
            else
              let outputKey = href filePath in
              if \<not> isUseClient (node st) \<and> \<not> isUseServer (node st) then (Returned, st)
              else
                let exps = traverse_exports (body (node st));
                    st1 = set_clientReferences outputKey exps st
                in
                if \<not> isServer then (Returned, st1)
                else if isUseClient (node st) then
                  (Returned,
                   pushContainer_body (clientModuleProxy outputKey) (clear_body_and_directives st1))
                else
                  (Returned, pushContainer_body (serverReferenceWrapper outputKey) st1))"

text \<open>
  The compiled JavaScript file. It has no \<^verbatim>\<open>isServer\<close>; it collects the exports and
  writes the metadata inside \<^verbatim>\<open>if (isUseClient)\<close>.
\<close>

definition Program_js :: "(string \<Rightarrow> string) \<Rightarrow> pass_state \<Rightarrow> outcome \<times> pass_state" where
  "Program_js href st =
     (if isUseClient (node st) \<and> isUseServer (node st) then
        (Threw (buildCodeFrameError (node st) conflict_message), st)
      else
        case filename st of
          None \<Rightarrow> (Threw (Error filename_message), st)
        | Some filePath \<Rightarrow>
            if filePath = [] then (Threw (Error filename_message), st)
            else
              let outputKey = href filePath in
              if \<not> isUseClient (node st) \<and> \<not> isUseServer (node st) then (Returned, st)
              else
                let st1 = (if isUseClient (node st)
                           then set_clientReferences outputKey
                                  (traverse_exports (body (node st))) st
                           else st)
                in
                if isUseClient (node st) then
                  (Returned,
                   pushContainer_body (clientModuleProxy outputKey) (clear_body_and_directives st1))
                else
                  (Returned, pushContainer_body (serverReferenceWrapper outputKey) st1))"

section \<open>Running the generated code\<close>

text \<open>
  The \<^verbatim>\<open>"use server"\<close> branch emits code whose effect shows only when the module is
  loaded. To state that effect, the statements the plugin builds are given their
  JavaScript meaning: an evaluator for the constructs that occur in them. A construct
  outside this fragment evaluates to \<open>None\<close>.

  A value is a primitive, a function (told apart by a number) or an object. Functions
  and objects carry their enumerable properties, own and inherited, in the order in
  which \<^verbatim>\<open>for-in\<close> visits them; an object has each key once. Properties that are not
  enumerable, such as the methods of the built-in prototypes, are not modelled, with the
  exception of the \<^verbatim>\<open>length\<close> of a string. For a number only its being a number matters
  here.
\<close>

datatype jsvalue =
    JUndefined
  | JNull
  | JBool bool
  | JNumber int
  | JString string
  | JFunction nat "(string \<times> jsvalue) list"
  | JObject "(string \<times> jsvalue) list"

text \<open>
  What an expression of the generated code evaluates to: a value, the CommonJS
  \<^verbatim>\<open>module\<close> object, the \<^verbatim>\<open>require\<close> function, or the exports of another module \<open>m\<close>
  obtained by \<^verbatim>\<open>require(m)\<close>, of which nothing is known but its name.
\<close>

datatype denotation =
    Value jsvalue
  | ThisModule
  | Require
  | Module string

text \<open>
  The runtime state: the current value of \<^verbatim>\<open>module.exports\<close>, and the calls made so far
  into other modules, each as (module, member, arguments).
\<close>

record runtime =
  exports_value :: jsvalue
  calls :: "(string \<times> string \<times> jsvalue list) list"

fun js_typeof :: "jsvalue \<Rightarrow> string" where
  "js_typeof JUndefined = ''undefined''"
| "js_typeof JNull = ''object''"
| "js_typeof (JBool b) = ''boolean''"
| "js_typeof (JNumber n) = ''number''"
| "js_typeof (JString s) = ''string''"
| "js_typeof (JFunction f ps) = ''function''"
| "js_typeof (JObject ps) = ''object''"

definition is_function :: "jsvalue \<Rightarrow> bool" where
  "is_function v = (js_typeof v = ''function'')"

fun truthy :: "jsvalue \<Rightarrow> bool" where
  "truthy JUndefined = False"
| "truthy JNull = False"
| "truthy (JBool b) = b"
| "truthy (JNumber n) = (n \<noteq> 0)"
| "truthy (JString s) = (s \<noteq> [])"
| "truthy (JFunction f ps) = True"
| "truthy (JObject ps) = True"

fun primitive :: "jsvalue \<Rightarrow> bool" where
  "primitive (JFunction f ps) = False"
| "primitive (JObject ps) = False"
| "primitive _ = True"

text \<open>The decimal numeral of an index, as in the keys \<^verbatim>\<open>"0"\<close>, \<^verbatim>\<open>"1"\<close>, ... of a string.\<close>

fun decimal :: "nat \<Rightarrow> string" where
  "decimal n =
     (if n < 10 then [''0123456789'' ! n]
      else decimal (n div 10) @ [''0123456789'' ! (n mod 10)])"

declare decimal.simps [simp del]

text \<open>
  The enumerable properties of a value, in the order of \<^verbatim>\<open>for-in\<close>: those of an object
  or function; the characters of a string under their indices; none for \<^verbatim>\<open>undefined\<close>,
  \<^verbatim>\<open>null\<close>, booleans and numbers.
\<close>

fun enumerable_properties :: "jsvalue \<Rightarrow> (string \<times> jsvalue) list" where
  "enumerable_properties (JObject ps) = ps"
| "enumerable_properties (JFunction f ps) = ps"
| "enumerable_properties (JString s) =
     zip (map decimal [0..<length s]) (map (\<lambda>c. JString [c]) s)"
| "enumerable_properties _ = []"

text \<open>
  Reading a property \<^verbatim>\<open>v[k]\<close>. On \<^verbatim>\<open>undefined\<close> and \<^verbatim>\<open>null\<close> the read throws (\<open>None\<close>); a
  property that the value lacks reads as \<^verbatim>\<open>undefined\<close>.
\<close>

fun get_property :: "jsvalue \<Rightarrow> string \<Rightarrow> jsvalue option" where
  "get_property JUndefined k = None"
| "get_property JNull k = None"
| "get_property v k =
     (case map_of (enumerable_properties v) k of
        Some x \<Rightarrow> Some x
      | None \<Rightarrow>
          (case v of
             JString s \<Rightarrow> if k = ''length'' then Some (JNumber (int (length s)))
                           else Some JUndefined
           | _ \<Rightarrow> Some JUndefined))"

text \<open>
  \<^verbatim>\<open>d[k]\<close> for what an expression evaluated to. Of the \<^verbatim>\<open>module\<close> object only \<^verbatim>\<open>exports\<close>
  is modelled; the members of another module are only ever called (see \<open>eval\<close>).
\<close>

fun member :: "runtime \<Rightarrow> denotation \<Rightarrow> string \<Rightarrow> denotation option" where
  "member rt (Value v) k = map_option Value (get_property v k)"
| "member rt ThisModule k = (if k = ''exports'' then Some (Value (exports_value rt)) else None)"
| "member rt Require k = None"
| "member rt (Module m) k = None"

fun the_values :: "denotation list \<Rightarrow> jsvalue list option" where
  "the_values [] = Some []"
| "the_values (Value v # ds) = map_option (\<lambda>vs. v # vs) (the_values ds)"
| "the_values (d # ds) = None"

text \<open>
  Expressions yield what they evaluate to and the new runtime state, statements the new
  state. A call \<^verbatim>\<open>o.f(args)\<close> on the exports \<open>o\<close> of another module is recorded in
  \<open>calls\<close>; what it returns is not known and not used by the generated code
  (\<^verbatim>\<open>undefined\<close> here). An arrow function is only ever called on the spot, without
  parameters. A \<^verbatim>\<open>for-in\<close> loop over \<^verbatim>\<open>undefined\<close> or \<^verbatim>\<open>null\<close> does not run, and over any
  other value binds the loop variable to each enumerable key in turn.
\<close>

fun eval ::
  "(string \<rightharpoonup> jsvalue) \<Rightarrow> runtime \<Rightarrow> expression \<Rightarrow> (denotation \<times> runtime) option"
and eval_list ::
  "(string \<rightharpoonup> jsvalue) \<Rightarrow> runtime \<Rightarrow> expression list \<Rightarrow> (denotation list \<times> runtime) option"
and exec :: "(string \<rightharpoonup> jsvalue) \<Rightarrow> runtime \<Rightarrow> statement \<Rightarrow> runtime option"
and exec_list :: "(string \<rightharpoonup> jsvalue) \<Rightarrow> runtime \<Rightarrow> statement list \<Rightarrow> runtime option"
and exec_for_in ::
  "(string \<rightharpoonup> jsvalue) \<Rightarrow> runtime \<Rightarrow> string \<Rightarrow> string list \<Rightarrow> statement \<Rightarrow> runtime option"
where
  "eval env rt (Identifier x) =
     (case env x of
        Some v \<Rightarrow> Some (Value v, rt)
      | None \<Rightarrow> if x = ''module'' then Some (ThisModule, rt)
                else if x = ''require'' then Some (Require, rt)
                else None)"
| "eval env rt (StringLiteral s) = Some (Value (JString s), rt)"
| "eval env rt NullLiteral = Some (Value JNull, rt)"
| "eval env rt (MemberExpression obj prop computed) =
     (case eval env rt obj of
        None \<Rightarrow> None
      | Some (ov, rt1) \<Rightarrow>
          if computed then
            (case eval env rt1 prop of
               Some (Value (JString k), rt2) \<Rightarrow> map_option (\<lambda>d. (d, rt2)) (member rt2 ov k)
             | _ \<Rightarrow> None)
          else
            (case prop of
               Identifier k \<Rightarrow> map_option (\<lambda>d. (d, rt1)) (member rt1 ov k)
             | _ \<Rightarrow> None))"
| "eval env rt (UnaryExpression oper e) =
     (if oper = ''typeof'' then
        (case eval env rt e of
           Some (Value v, rt1) \<Rightarrow> Some (Value (JString (js_typeof v)), rt1)
         | Some (ThisModule, rt1) \<Rightarrow> Some (Value (JString ''object''), rt1)
         | Some (Require, rt1) \<Rightarrow> Some (Value (JString ''function''), rt1)
         | _ \<Rightarrow> None)
      else None)"
| "eval env rt (BinaryExpression oper l r) =
     (if oper = ''==='' then
        (case eval env rt l of
           Some (Value lv, rt1) \<Rightarrow>
             (case eval env rt1 r of
                Some (Value rv, rt2) \<Rightarrow>
                  if primitive lv \<and> primitive rv then Some (Value (JBool (lv = rv)), rt2)
                  else None
              | _ \<Rightarrow> None)
         | _ \<Rightarrow> None)
      else None)"
| "eval env rt (CallExpression (MemberExpression obj (Identifier f) False) args) =
     (case eval env rt obj of
        Some (Module m, rt1) \<Rightarrow>
          (case eval_list env rt1 args of
             None \<Rightarrow> None
           | Some (ds, rt2) \<Rightarrow>
               (case the_values ds of
                  None \<Rightarrow> None
                | Some vs \<Rightarrow>
                    Some (Value JUndefined, rt2\<lparr>calls := calls rt2 @ [(m, f, vs)]\<rparr>)))
      | _ \<Rightarrow> None)"
| "eval env rt (CallExpression (ArrowFunctionExpression params fbody) args) =
     (if params = [] \<and> args = [] then
        (case exec env rt fbody of None \<Rightarrow> None | Some rt1 \<Rightarrow> Some (Value JUndefined, rt1))
      else None)"
| "eval env rt (CallExpression (Identifier g) args) =
     (case eval env rt (Identifier g) of
        Some (Require, rt1) \<Rightarrow>
          (case eval_list env rt1 args of
             Some ([Value (JString m)], rt2) \<Rightarrow> Some (Module m, rt2)
           | _ \<Rightarrow> None)
      | _ \<Rightarrow> None)"
| "eval env rt _ = None"
| "eval_list env rt [] = Some ([], rt)"
| "eval_list env rt (e # es) =
     (case eval env rt e of
        None \<Rightarrow> None
      | Some (d, rt1) \<Rightarrow>
          (case eval_list env rt1 es of
             None \<Rightarrow> None
           | Some (ds, rt2) \<Rightarrow> Some (d # ds, rt2)))"
| "exec env rt (ExpressionStatement e) = map_option snd (eval env rt e)"
| "exec env rt (BlockStatement ss) = exec_list env rt ss"
| "exec env rt (IfStatement test cons alt) =
     (case eval env rt test of
        Some (Value v, rt1) \<Rightarrow>
          if truthy v then exec env rt1 cons
          else (case alt of None \<Rightarrow> Some rt1 | Some s \<Rightarrow> exec env rt1 s)
      | _ \<Rightarrow> None)"
| "exec env rt (ForInStatement
                  (VariableDeclaration kind [VariableDeclarator (Identifier x) None]) e lbody) =
     (case eval env rt e of
        Some (Value v, rt1) \<Rightarrow>
          exec_for_in env rt1 x (map fst (enumerable_properties v)) lbody
      | _ \<Rightarrow> None)"
| "exec env rt _ = None"
| "exec_list env rt [] = Some rt"
| "exec_list env rt (s # ss) =
     (case exec env rt s of None \<Rightarrow> None | Some rt1 \<Rightarrow> exec_list env rt1 ss)"
| "exec_for_in env rt x [] lbody = Some rt"
| "exec_for_in env rt x (k # ks) lbody =
     (case exec (env(x \<mapsto> JString k)) rt lbody of
        None \<Rightarrow> None
      | Some rt1 \<Rightarrow> exec_for_in env rt1 x ks lbody)"

text \<open>
  Loading a module whose \<^verbatim>\<open>module.exports\<close> is \<open>v\<close> when the statement \<open>s\<close> is reached:
  the calls into other modules that \<open>s\<close> makes, in order.
\<close>

definition calls_of :: "statement \<Rightarrow> jsvalue \<Rightarrow> (string \<times> string \<times> jsvalue list) list option" where
  "calls_of s v = map_option calls (exec Map.empty \<lparr>exports_value = v, calls = []\<rparr> s)"

section \<open>Sample modules\<close>

text \<open>
  An instance of \<open>href\<close> for absolute POSIX paths without characters that a URL escapes.
\<close>

definition posix_href :: "string \<Rightarrow> string" where
  "posix_href p = ''file://'' @ p"

definition compile_state :: "program \<Rightarrow> string option \<Rightarrow> pass_state" where
  "compile_state p f = \<lparr>node = p, filename = f, metadata = Map.empty\<rparr>"

definition use_client :: directive where
  "use_client = Directive (DirectiveLiteral ''use client'')"

definition use_server :: directive where
  "use_server = Directive (DirectiveLiteral ''use server'')"

text \<open>\<^verbatim>\<open>export const foo = 'bar'; export default foo;\<close>\<close>

definition foo_and_default :: "moduleItem list" where
  "foo_and_default =
     [ExportNamedDeclaration
        (Some (VariableDeclaration ''const''
                 [VariableDeclarator (Identifier ''foo'') (Some (StringLiteral ''bar''))]))
        [] None,
      ExportDefaultDeclaration (Some (DefaultExpression (Identifier ''foo'')))]"

text \<open>\<^verbatim>\<open>export function doThing() {}\<close>\<close>

definition doThing :: "moduleItem list" where
  "doThing =
     [ExportNamedDeclaration
        (Some (FunctionDeclaration (Identifier ''doThing'') [] (BlockStatement [])))
        [] None]"

text \<open>\<^verbatim>\<open>export const { a, b } = obj;\<close>\<close>

definition destructured :: "moduleItem list" where
  "destructured =
     [ExportNamedDeclaration
        (Some (VariableDeclaration ''const''
                 [VariableDeclarator
                    (ObjectPattern [(Identifier ''a'', Identifier ''a''),
                                    (Identifier ''b'', Identifier ''b'')])
                    (Some (Identifier ''obj''))]))
        [] None]"

definition client_module :: pass_state where
  "client_module =
     compile_state \<lparr>body = foo_and_default, directives = [use_client], loc = None\<rparr>
       (Some ''/app/a.js'')"

definition server_module :: pass_state where
  "server_module =
     compile_state \<lparr>body = doThing, directives = [use_server], loc = None\<rparr>
       (Some ''/app/a.js'')"

definition conflicting_module :: pass_state where
  "conflicting_module =
     compile_state \<lparr>body = doThing, directives = [use_client, use_server], loc = None\<rparr> None"

definition plain_module :: pass_state where
  "plain_module =
     compile_state \<lparr>body = doThing, directives = [], loc = None\<rparr> (Some ''/app/a.js'')"

definition destructuring_module :: pass_state where
  "destructuring_module =
     compile_state \<lparr>body = destructured, directives = [use_client], loc = None\<rparr>
       (Some ''/app/a.js'')"

section \<open>Shared facts\<close>

lemmas sample_defs = client_module_def server_module_def conflicting_module_def plain_module_def
  destructuring_module_def compile_state_def use_client_def use_server_def foo_and_default_def
  doThing_def destructured_def posix_href_def

lemmas step_defs = pushContainer_body_def set_clientReferences_def clear_body_and_directives_def

lemma client_module_facts:
  "isUseClient (node client_module)" "\<not> isUseServer (node client_module)"
  "filename client_module = Some ''/app/a.js''" "''/app/a.js'' \<noteq> []"
  by (simp_all add: sample_defs isUseClient_def isUseServer_def)

lemma server_module_facts:
  "isUseServer (node server_module)" "\<not> isUseClient (node server_module)"
  "filename server_module = Some ''/app/a.js''"
  by (simp_all add: sample_defs isUseClient_def isUseServer_def)

lemma conflicting_module_facts:
  "isUseClient (node conflicting_module)" "isUseServer (node conflicting_module)"
  "filename conflicting_module = None" "loc (node conflicting_module) = None"
  by (simp_all add: sample_defs isUseClient_def isUseServer_def)

lemma plain_module_facts:
  "\<not> isUseClient (node plain_module)" "\<not> isUseServer (node plain_module)"
  "filename plain_module = Some ''/app/a.js''"
  by (simp_all add: sample_defs isUseClient_def isUseServer_def)

text \<open>The loop over \<^verbatim>\<open>exports.push\<close> concatenates what the visitors push, in order.\<close>

lemma foldl_push: "foldl (\<lambda>exports item. exports @ visit item) acc items = acc @ concat (map visit items)"
  by (induction items arbitrary: acc) simp_all

lemma traverse_exports_concat: "traverse_exports items = concat (map visit items)"
  by (simp add: traverse_exports_def foldl_push)

lemma exports_foo_and_default: "traverse_exports foo_and_default = [Some ''foo'', Some ''default'']"
  by (simp add: traverse_exports_def foo_and_default_def)

lemma exports_doThing: "traverse_exports doThing = [Some ''doThing'']"
  by (simp add: traverse_exports_def doThing_def)

section \<open>Conflicting directives\<close>

text \<open>
  Claim C1. A module whose directives contain both \<^verbatim>\<open>"use client"\<close> and \<^verbatim>\<open>"use server"\<close>
  makes the visitor throw the code-frame error, which carries the location of the
  \<^verbatim>\<open>Program\<close> node. Nothing has been done by then: the state at the throw is the state
  the visitor was called with, whatever the body, the filename and \<^verbatim>\<open>isServer\<close> are.
  Both copies of the visitor behave so.
\<close>

theorem conflicting_directives_throw:
  assumes "isUseClient (node st)" and "isUseServer (node st)"
  shows "Program_ts href isServer st =
           (Threw (CodeFrameError (loc (node st)) conflict_message), st)
       \<and> Program_js href st =
           (Threw (CodeFrameError (loc (node st)) conflict_message), st)"
  using assms by (simp add: Program_ts_def Program_js_def buildCodeFrameError_def)

theorem conflicting_directives_throw_witness:
  "isUseClient (node conflicting_module) \<and> isUseServer (node conflicting_module)
   \<and> Program_ts posix_href True conflicting_module =
           (Threw (CodeFrameError None conflict_message), conflicting_module)
   \<and> Program_js posix_href conflicting_module =
           (Threw (CodeFrameError None conflict_message), conflicting_module)"
  using conflicting_directives_throw
          [OF conflicting_module_facts(1) conflicting_module_facts(2), of posix_href True]
        conflicting_module_facts
  by simp

section \<open>The client boundary\<close>

text \<open>
  Claim C2. For a module with \<^verbatim>\<open>"use client"\<close> only and a filename, once the rewrite
  applies (in the TypeScript source when \<^verbatim>\<open>isServer\<close> holds, in the compiled file always),
  the visitor returns and the body is exactly one statement,
  \<^verbatim>\<open>module.exports = require('react-server-dom-webpack/server').createClientModuleProxy(url)\<close>
  with the file URL as the only argument, a string literal. No statement of the
  original body is left.
\<close>

theorem client_boundary_body:
  assumes "isUseClient (node st)" and "\<not> isUseServer (node st)"
    and "filename st = Some filePath" and "filePath \<noteq> []"
  shows "fst (Program_ts href True st) = Returned
       \<and> fst (Program_js href st) = Returned
       \<and> body (node (snd (Program_ts href True st))) =
           [Statement (ExpressionStatement
              (AssignmentExpression ''=''
                 (MemberExpression (Identifier ''module'') (Identifier ''exports'') False)
                 (CallExpression
                    (MemberExpression
                       (CallExpression (Identifier ''require'')
                          [StringLiteral ''react-server-dom-webpack/server''])
                       (Identifier ''createClientModuleProxy'') False)
                    [StringLiteral (href filePath)])))]
       \<and> body (node (snd (Program_js href st))) = body (node (snd (Program_ts href True st)))"
  using assms
  by (simp add: Program_ts_def Program_js_def step_defs clientModuleProxy_def
      module_exports_def reactServerAdapter_def Let_def)

theorem client_boundary_body_witness:
  "isUseClient (node client_module) \<and> \<not> isUseServer (node client_module)
   \<and> filename client_module = Some ''/app/a.js''
   \<and> fst (Program_ts posix_href True client_module) = Returned
   \<and> body (node (snd (Program_ts posix_href True client_module))) =
           [Statement (ExpressionStatement
              (AssignmentExpression ''=''
                 (MemberExpression (Identifier ''module'') (Identifier ''exports'') False)
                 (CallExpression
                    (MemberExpression
                       (CallExpression (Identifier ''require'')
                          [StringLiteral ''react-server-dom-webpack/server''])
                       (Identifier ''createClientModuleProxy'') False)
                    [StringLiteral ''file:///app/a.js''])))]
   \<and> body (node (snd (Program_js posix_href client_module))) =
       body (node (snd (Program_ts posix_href True client_module)))"
  using client_boundary_body [OF client_module_facts, of posix_href] client_module_facts
  by (simp add: posix_href_def)


section \<open>The server boundary\<close>

text \<open>One round of the loop, for a key under which \<^verbatim>\<open>module.exports\<close> has a value.\<close>

lemma loop_body_step:
  assumes "get_property (exports_value rt) k = Some x"
  shows "exec (Map.empty(''key'' \<mapsto> JString k)) rt (loopBody url) =
           Some (if is_function x
                 then rt\<lparr>calls := calls rt @
                        [(''react-server-dom-webpack/server'', ''registerServerReference'',
                          [x, JString url, JString k])]\<rparr>
                 else rt)"
  using assms
  by (cases x) (simp_all add: loopBody_def mmexp_def module_exports_def reactServerAdapter_def
      is_function_def)

lemma get_property_object:
  assumes "distinct (map fst ps)" and "(k, x) \<in> set ps"
  shows "get_property (JObject ps) k = Some x"
  using assms by simp

lemma for_in_object:
  assumes "exports_value rt = JObject ps" and "distinct (map fst ps)" and "set qs \<subseteq> set ps"
  shows "exec_for_in Map.empty rt ''key'' (map fst qs) (loopBody url) =
           Some (rt\<lparr>calls := calls rt @
                   map (\<lambda>(k, x). (''react-server-dom-webpack/server'', ''registerServerReference'',
                                  [x, JString url, JString k]))
                     (filter (\<lambda>(k, x). is_function x) qs)\<rparr>)"
  using assms
proof (induction qs arbitrary: rt)
  case Nil
  then show ?case by simp
next
  case (Cons q qs)
  obtain k x where q: "q = (k, x)" by (cases q)
  from Cons.prems q have "distinct (map fst ps)" and "(k, x) \<in> set ps"
    by simp_all
  then have "get_property (JObject ps) k = Some x"
    by (rule get_property_object)
  with Cons.prems(1) have "get_property (exports_value rt) k = Some x"
    by (simp only:)
  from loop_body_step [OF this, of url]
  show ?case using Cons q by simp
qed

text \<open>A string has a character, never a function, under each of its enumerable keys.\<close>

lemma get_property_string:
  assumes "k \<in> set (map decimal [0..<length s])"
  shows "\<exists>c. get_property (JString s) k = Some (JString c)"
proof -
  let ?ps = "zip (map decimal [0..<length s]) (map (\<lambda>c. JString [c]) s)"
  have m: "map fst ?ps = map decimal [0..<length s]"
    by (rule map_fst_zip) simp
  from assms have "k \<in> set (map fst ?ps)"
    by (simp only: m)
  then have "k \<in> fst ` set ?ps"
    by (simp only: set_map)
  then obtain x where x: "map_of ?ps k = Some x"
    by (metis domD dom_map_of_conv_image_fst)
  then have "(k, x) \<in> set ?ps"
    by (rule map_of_SomeD)
  then have "x \<in> set (map (\<lambda>c. JString [c]) s)"
    by (rule set_zip_rightD)
  then obtain c where "x = JString [c]"
    by auto
  with x show ?thesis by simp
qed

lemma for_in_string:
  assumes "exports_value rt = JString s" and "set ks \<subseteq> set (map decimal [0..<length s])"
  shows "exec_for_in Map.empty rt ''key'' ks (loopBody url) = Some rt"
  using assms
proof (induction ks)
  case Nil
  then show ?case by simp
next
  case (Cons k ks)
  then obtain c where "get_property (exports_value rt) k = Some (JString c)"
    using get_property_string [of k s] by auto
  from loop_body_step [OF this, of url]
  show ?case using Cons by (simp add: is_function_def)
qed

lemma keys_string: "map fst (enumerable_properties (JString s)) = map decimal [0..<length s]"
  by simp

lemma no_function_in_string:
  "filter (\<lambda>(k, x). is_function x) (enumerable_properties (JString s)) = []"
proof -
  have "\<not> is_function x" if "(k, x) \<in> set (enumerable_properties (JString s))" for k x
  proof -
    from that have "x \<in> set (map (\<lambda>c. JString [c]) s)"
      by (auto dest: set_zip_rightD)
    then show ?thesis by (auto simp add: is_function_def)
  qed
  then show ?thesis
    by (auto simp add: filter_empty_conv simp del: enumerable_properties.simps)
qed

lemma wrapper_on_function:
  assumes "is_function v"
  shows "calls_of (serverReferenceWrapper url) v =
           Some [(''react-server-dom-webpack/server'', ''registerServerReference'',
                  [v, JString url, JNull])]"
  using assms
  by (cases v) (simp_all add: calls_of_def serverReferenceWrapper_def mmexp_def
      module_exports_def reactServerAdapter_def is_function_def)

lemma wrapper_on_other:
  assumes "\<not> is_function v"
  shows "calls_of (serverReferenceWrapper url) v =
           map_option calls
             (exec_for_in Map.empty \<lparr>exports_value = v, calls = []\<rparr> ''key''
                (map fst (enumerable_properties v)) (loopBody url))"
  using assms
  by (cases v) (simp_all add: calls_of_def serverReferenceWrapper_def forInStatement_def
      module_exports_def is_function_def del: enumerable_properties.simps split: option.split)

lemma wrapper_on_object:
  assumes "distinct (map fst ps)"
  shows "calls_of (serverReferenceWrapper url) (JObject ps) =
           Some (map (\<lambda>(k, x). (''react-server-dom-webpack/server'', ''registerServerReference'',
                                 [x, JString url, JString k]))
                   (filter (\<lambda>(k, x). is_function x) ps))"
proof -
  let ?rt = "\<lparr>exports_value = JObject ps, calls = []\<rparr>"
  have "\<not> is_function (JObject ps)"
    by (simp add: is_function_def)
  from wrapper_on_other [OF this, of url] for_in_object [of ?rt ps ps url] assms
  show ?thesis by simp
qed

lemma wrapper_on_primitive:
  assumes "primitive v"
  shows "calls_of (serverReferenceWrapper url) v = Some []"
proof (cases v)
  case (JString s)
  let ?rt = "\<lparr>exports_value = JString s, calls = []\<rparr>"
  have "\<not> is_function (JString s)"
    by (simp add: is_function_def)
  from wrapper_on_other [OF this, of url]
       for_in_string [of ?rt s "map decimal [0..<length s]" url] JString
  show ?thesis by (simp del: enumerable_properties.simps add: keys_string)
next
  case JUndefined
  then show ?thesis using wrapper_on_other [of v url] by (simp add: is_function_def)
next
  case JNull
  then show ?thesis using wrapper_on_other [of v url] by (simp add: is_function_def)
next
  case (JBool b)
  then show ?thesis using wrapper_on_other [of v url] by (simp add: is_function_def)
next
  case (JNumber n)
  then show ?thesis using wrapper_on_other [of v url] by (simp add: is_function_def)
next
  case (JFunction f ps)
  with assms show ?thesis by simp
next
  case (JObject ps)
  with assms show ?thesis by simp
qed

lemma wrapper_on_non_function:
  assumes "\<not> is_function v" and "primitive v \<or> distinct (map fst (enumerable_properties v))"
  shows "calls_of (serverReferenceWrapper url) v =
           Some (map (\<lambda>(k, x). (''react-server-dom-webpack/server'', ''registerServerReference'',
                                 [x, JString url, JString k]))
                   (filter (\<lambda>(k, x). is_function x) (enumerable_properties v)))"
proof (cases v)
  case (JObject ps)
  with assms show ?thesis using wrapper_on_object [of ps url] by simp
next
  case (JFunction f ps)
  with assms show ?thesis by (simp add: is_function_def)
next
  case (JString s)
  then show ?thesis
    using wrapper_on_primitive [of v url] no_function_in_string [of s]
    by (simp del: enumerable_properties.simps)
next
  case JUndefined
  then show ?thesis using wrapper_on_primitive [of v url] by simp
next
  case JNull
  then show ?thesis using wrapper_on_primitive [of v url] by simp
next
  case (JBool b)
  then show ?thesis using wrapper_on_primitive [of v url] by simp
next
  case (JNumber n)
  then show ?thesis using wrapper_on_primitive [of v url] by simp
qed

text \<open>
  Claim C3. For a module with \<^verbatim>\<open>"use server"\<close> only and a filename, once the rewrite
  applies, the visitor returns, having appended one statement, an arrow function called
  on the spot. Run when the module is loaded with \<^verbatim>\<open>module.exports\<close> being \<open>v\<close>, that
  statement calls \<^verbatim>\<open>registerServerReference\<close> of the adapter module: once, with
  \<^verbatim>\<open>(module.exports, url, null)\<close>, when \<^verbatim>\<open>typeof module.exports\<close> is \<^verbatim>\<open>'function'\<close>; otherwise
  it goes through the enumerable keys of \<open>v\<close> in order and calls it with
  \<^verbatim>\<open>(module.exports[key], url, key)\<close> for exactly the keys whose value is a function. In
  particular it registers nothing when \<open>v\<close> is \<^verbatim>\<open>undefined\<close>, \<^verbatim>\<open>null\<close>, a boolean, a number
  or a string.
\<close>

theorem server_wrapper_registers:
  assumes "isUseServer (node st)" and "\<not> isUseClient (node st)"
    and "filename st = Some filePath" and "filePath \<noteq> []"
    and "\<forall>ps. v = JObject ps \<longrightarrow> distinct (map fst ps)"
  shows "fst (Program_ts href True st) = Returned
       \<and> fst (Program_js href st) = Returned
       \<and> body (node (snd (Program_ts href True st))) =
           body (node st) @ [Statement (serverReferenceWrapper (href filePath))]
       \<and> body (node (snd (Program_js href st))) =
           body (node st) @ [Statement (serverReferenceWrapper (href filePath))]
       \<and> (\<exists>b. serverReferenceWrapper (href filePath) =
                ExpressionStatement (CallExpression (ArrowFunctionExpression [] b) []))
       \<and> calls_of (serverReferenceWrapper (href filePath)) v =
           Some (if is_function v
                 then [(''react-server-dom-webpack/server'', ''registerServerReference'',
                        [v, JString (href filePath), JNull])]
                 else map (\<lambda>(k, x). (''react-server-dom-webpack/server'',
                                        ''registerServerReference'',
                                        [x, JString (href filePath), JString k]))
                        (filter (\<lambda>(k, x). is_function x) (enumerable_properties v)))
       \<and> (primitive v \<longrightarrow> calls_of (serverReferenceWrapper (href filePath)) v = Some [])"
proof -
  have "fst (Program_ts href True st) = Returned"
    using assms(1-4) by (simp add: Program_ts_def Let_def)
  moreover have "fst (Program_js href st) = Returned"
    using assms(1-4) by (simp add: Program_js_def Let_def)
  moreover have "body (node (snd (Program_ts href True st))) =
           body (node st) @ [Statement (serverReferenceWrapper (href filePath))]"
    using assms(1-4) by (simp add: Program_ts_def step_defs Let_def)
  moreover have "body (node (snd (Program_js href st))) =
           body (node st) @ [Statement (serverReferenceWrapper (href filePath))]"
    using assms(1-4) by (simp add: Program_js_def step_defs Let_def)
  moreover have "\<exists>b. serverReferenceWrapper (href filePath) =
                ExpressionStatement (CallExpression (ArrowFunctionExpression [] b) [])"
    by (simp add: serverReferenceWrapper_def)
  moreover have "calls_of (serverReferenceWrapper (href filePath)) v =
           Some (if is_function v
                 then [(''react-server-dom-webpack/server'', ''registerServerReference'',
                        [v, JString (href filePath), JNull])]
                 else map (\<lambda>(k, x). (''react-server-dom-webpack/server'',
                                        ''registerServerReference'',
                                        [x, JString (href filePath), JString k]))
                        (filter (\<lambda>(k, x). is_function x) (enumerable_properties v)))"
  proof (cases "is_function v")
    case True
    then show ?thesis
      using wrapper_on_function [of v "href filePath"] by simp
  next
    case False
    have "primitive v \<or> distinct (map fst (enumerable_properties v))"
      using assms(5) False by (cases v) (simp_all add: is_function_def)
    with False show ?thesis
      using wrapper_on_non_function [of v "href filePath"] by simp
  qed
  moreover have "primitive v \<longrightarrow> calls_of (serverReferenceWrapper (href filePath)) v = Some []"
    using wrapper_on_primitive [of v "href filePath"] by simp
  ultimately show ?thesis
    by (simp only: simp_thms)
qed

theorem server_wrapper_registers_witness:
  "isUseServer (node server_module) \<and> \<not> isUseClient (node server_module)
   \<and> filename server_module = Some ''/app/a.js''
   \<and> distinct (map fst [(''doThing'', JFunction 1 []), (''version'', JString ''1'')])
   \<and> fst (Program_ts posix_href True server_module) = Returned
   \<and> body (node (snd (Program_ts posix_href True server_module))) =
           doThing @ [Statement (serverReferenceWrapper ''file:///app/a.js'')]
   \<and> calls_of (serverReferenceWrapper ''file:///app/a.js'') (JFunction 1 []) =
           Some [(''react-server-dom-webpack/server'', ''registerServerReference'',
                  [JFunction 1 [], JString ''file:///app/a.js'', JNull])]
   \<and> calls_of (serverReferenceWrapper ''file:///app/a.js'')
         (JObject [(''doThing'', JFunction 1 []), (''version'', JString ''1'')]) =
           Some [(''react-server-dom-webpack/server'', ''registerServerReference'',
                  [JFunction 1 [], JString ''file:///app/a.js'', JString ''doThing''])]
   \<and> calls_of (serverReferenceWrapper ''file:///app/a.js'') (JString ''ab'') = Some []"
proof -
  let ?obj = "JObject [(''doThing'', JFunction 1 []), (''version'', JString ''1'')]"
  have n: "''/app/a.js'' \<noteq> []"
    by simp
  have f: "\<forall>ps. JFunction 1 [] = JObject ps \<longrightarrow> distinct (map fst ps)"
    by simp
  have p: "\<forall>ps. JString ''ab'' = JObject ps \<longrightarrow> distinct (map fst ps)"
    by simp
  have d: "\<forall>ps. ?obj = JObject ps \<longrightarrow> distinct (map fst ps)"
    by simp
  have b: "body (node server_module) = doThing"
    by (simp add: server_module_def compile_state_def)
  show ?thesis
    using server_wrapper_registers
            [OF server_module_facts(1) server_module_facts(2) server_module_facts(3) n f,
             of posix_href]
          server_wrapper_registers
            [OF server_module_facts(1) server_module_facts(2) server_module_facts(3) n d,
             of posix_href]
          server_wrapper_registers
            [OF server_module_facts(1) server_module_facts(2) server_module_facts(3) n p,
             of posix_href]
          server_module_facts b
    by (simp add: posix_href_def is_function_def)
qed

section \<open>What the rewrite keeps\<close>

text \<open>
  Claim C4, as the code has it. Once the rewrite applies to a module with a filename:
  for \<^verbatim>\<open>"use client"\<close> only, the statements and the directives are cleared and the body is
  the proxy assignment alone; for \<^verbatim>\<open>"use server"\<close> only, the directives stay, every
  original statement stays, and the registration wrapper is appended after them. A
  module of server functions must keep its code, which the wrapper registers at load
  time.
\<close>

theorem rewrite_clears_client_keeps_server:
  assumes "filename st = Some filePath" and "filePath \<noteq> []"
  shows "(isUseClient (node st) \<and> \<not> isUseServer (node st) \<longrightarrow>
            body (node (snd (Program_ts href True st))) =
              [Statement (clientModuleProxy (href filePath))]
          \<and> directives (node (snd (Program_ts href True st))) = []
          \<and> body (node (snd (Program_js href st))) =
              [Statement (clientModuleProxy (href filePath))]
          \<and> directives (node (snd (Program_js href st))) = [])
       \<and> (isUseServer (node st) \<and> \<not> isUseClient (node st) \<longrightarrow>
            body (node (snd (Program_ts href True st))) =
              body (node st) @ [Statement (serverReferenceWrapper (href filePath))]
          \<and> directives (node (snd (Program_ts href True st))) = directives (node st)
          \<and> body (node (snd (Program_js href st))) =
              body (node st) @ [Statement (serverReferenceWrapper (href filePath))]
          \<and> directives (node (snd (Program_js href st))) = directives (node st))"
  using assms
  by (simp add: Program_ts_def Program_js_def step_defs Let_def)

theorem rewrite_clears_client_keeps_server_witness:
  "filename client_module = Some ''/app/a.js'' \<and> filename server_module = Some ''/app/a.js''
   \<and> isUseClient (node client_module) \<and> \<not> isUseServer (node client_module)
   \<and> isUseServer (node server_module) \<and> \<not> isUseClient (node server_module)
   \<and> body (node (snd (Program_ts posix_href True client_module))) =
        [Statement (clientModuleProxy ''file:///app/a.js'')]
   \<and> directives (node (snd (Program_ts posix_href True client_module))) = []
   \<and> body (node (snd (Program_js posix_href server_module))) =
        doThing @ [Statement (serverReferenceWrapper ''file:///app/a.js'')]
   \<and> directives (node (snd (Program_js posix_href server_module))) = [use_server]"
proof -
  have n: "''/app/a.js'' \<noteq> []"
    by simp
  have b: "body (node server_module) = doThing" "directives (node server_module) = [use_server]"
    by (simp_all add: server_module_def compile_state_def)
  show ?thesis
    using rewrite_clears_client_keeps_server [OF client_module_facts(3) n, of posix_href]
          rewrite_clears_client_keeps_server [OF server_module_facts(3) n, of posix_href]
          client_module_facts server_module_facts b
    by (simp add: posix_href_def)
qed

text \<open>
  The claim as it was stated fails on the server boundary: after the rewrite of
  \<^verbatim>\<open>"use server"; export function doThing() {}\<close> the directive and the export are still
  there.
\<close>

theorem rewrite_clears_counterexample:
  "isUseServer (node server_module) \<and> \<not> isUseClient (node server_module)
   \<and> filename server_module = Some ''/app/a.js''
   \<and> fst (Program_ts posix_href True server_module) = Returned
   \<and> directives (node (snd (Program_ts posix_href True server_module))) = [use_server]
   \<and> body (node (snd (Program_ts posix_href True server_module))) =
        doThing @ [Statement (serverReferenceWrapper ''file:///app/a.js'')]
   \<and> fst (Program_js posix_href server_module) = Returned
   \<and> directives (node (snd (Program_js posix_href server_module))) = [use_server]
   \<and> body (node (snd (Program_js posix_href server_module))) =
        doThing @ [Statement (serverReferenceWrapper ''file:///app/a.js'')]
   \<and> doThing \<noteq> []"
  by (simp add: Program_ts_def Program_js_def server_module_def compile_state_def
      use_server_def use_client_def isUseClient_def isUseServer_def step_defs Let_def
      posix_href_def doThing_def)

section \<open>The manifest record\<close>

text \<open>
  Claim C5, as the code has it. For a module with exactly one of the two directives and
  a filename, the TypeScript source stores \<^verbatim>\<open>{ entryPoint: url, exports }\<close> under
  \<^verbatim>\<open>'clientReferences'\<close>, whichever directive it is and whether or not the rewrite follows
  (\<^verbatim>\<open>isServer\<close>). The compiled file stores the same record for \<^verbatim>\<open>"use client"\<close>; for
  \<^verbatim>\<open>"use server"\<close> it leaves the metadata as it was.
\<close>

theorem manifest_recorded:
  assumes "filename st = Some filePath" and "filePath \<noteq> []"
    and "isUseClient (node st) \<noteq> isUseServer (node st)"
  shows "metadata (snd (Program_ts href isServer st)) ''clientReferences'' =
           Some (ClientReferences
                   \<lparr>entryPoint = href filePath, exports = traverse_exports (body (node st))\<rparr>)
       \<and> (isUseClient (node st) \<longrightarrow>
            metadata (snd (Program_js href st)) ''clientReferences'' =
              Some (ClientReferences
                      \<lparr>entryPoint = href filePath,
                         exports = traverse_exports (body (node st))\<rparr>))
       \<and> (isUseServer (node st) \<longrightarrow> metadata (snd (Program_js href st)) = metadata st)"
  using assms
  by (auto simp add: Program_ts_def Program_js_def step_defs Let_def)

theorem manifest_recorded_witness:
  "filename client_module = Some ''/app/a.js'' \<and> filename server_module = Some ''/app/a.js''
   \<and> isUseClient (node client_module) \<noteq> isUseServer (node client_module)
   \<and> isUseClient (node server_module) \<noteq> isUseServer (node server_module)
   \<and> metadata (snd (Program_ts posix_href False client_module)) ''clientReferences'' =
        Some (ClientReferences
                \<lparr>entryPoint = ''file:///app/a.js'', exports = [Some ''foo'', Some ''default'']\<rparr>)
   \<and> metadata (snd (Program_js posix_href client_module)) ''clientReferences'' =
        Some (ClientReferences
                \<lparr>entryPoint = ''file:///app/a.js'', exports = [Some ''foo'', Some ''default'']\<rparr>)
   \<and> metadata (snd (Program_ts posix_href True server_module)) ''clientReferences'' =
        Some (ClientReferences
                \<lparr>entryPoint = ''file:///app/a.js'', exports = [Some ''doThing'']\<rparr>)
   \<and> metadata (snd (Program_js posix_href server_module)) = metadata server_module"
proof -
  have n: "''/app/a.js'' \<noteq> []"
    by simp
  have c: "isUseClient (node client_module) \<noteq> isUseServer (node client_module)"
    using client_module_facts by simp
  have s: "isUseClient (node server_module) \<noteq> isUseServer (node server_module)"
    using server_module_facts by simp
  have b: "body (node client_module) = foo_and_default" "body (node server_module) = doThing"
    by (simp_all add: client_module_def server_module_def compile_state_def)
  show ?thesis
    using manifest_recorded [OF client_module_facts(3) n c, of posix_href False]
          manifest_recorded [OF server_module_facts(3) n s, of posix_href True]
          client_module_facts server_module_facts b exports_foo_and_default exports_doThing
    by (simp add: posix_href_def)
qed

text \<open>
  The claim as it was stated fails on the compiled file: for a \<^verbatim>\<open>"use server"\<close> module
  with a filename it stores nothing.
\<close>

theorem manifest_recorded_counterexample:
  "filename server_module = Some ''/app/a.js''
   \<and> isUseServer (node server_module) \<and> \<not> isUseClient (node server_module)
   \<and> fst (Program_js posix_href server_module) = Returned
   \<and> metadata (snd (Program_js posix_href server_module)) ''clientReferences'' = None"
  by (simp add: Program_js_def server_module_def compile_state_def use_server_def
      isUseClient_def isUseServer_def step_defs Let_def)

section \<open>Modules without a directive\<close>

text \<open>
  Claim C6. For a module with neither directive the visitor leaves the state as it was:
  statements, directives and metadata are untouched, no record is stored. With a
  filename it returns; without one it throws, and then too nothing has changed.
\<close>

theorem no_directive_unchanged:
  assumes "\<not> isUseClient (node st)" and "\<not> isUseServer (node st)"
  shows "snd (Program_ts href isServer st) = st \<and> snd (Program_js href st) = st
       \<and> (filename st = Some filePath \<and> filePath \<noteq> [] \<longrightarrow>
            Program_ts href isServer st = (Returned, st) \<and> Program_js href st = (Returned, st))"
  using assms
  by (simp add: Program_ts_def Program_js_def split: option.split)

theorem no_directive_unchanged_witness:
  "\<not> isUseClient (node plain_module) \<and> \<not> isUseServer (node plain_module)
   \<and> filename plain_module = Some ''/app/a.js''
   \<and> Program_ts posix_href True plain_module = (Returned, plain_module)
   \<and> Program_js posix_href plain_module = (Returned, plain_module)
   \<and> metadata (snd (Program_ts posix_href True plain_module)) ''clientReferences'' = None"
proof -
  have m: "metadata plain_module ''clientReferences'' = None"
    by (simp add: plain_module_def compile_state_def)
  show ?thesis
    using no_directive_unchanged
            [OF plain_module_facts(1) plain_module_facts(2), of posix_href True "''/app/a.js''"]
          plain_module_facts m
    by simp
qed

section \<open>Exported names\<close>

text \<open>
  What the collection gives on declarations whose \<^verbatim>\<open>id\<close> and specifiers whose
  \<^verbatim>\<open>exported\<close> are identifiers: their names, in order.
\<close>

lemma visit_variable_identifiers:
  "visit (ExportNamedDeclaration
            (Some (VariableDeclaration k (map (\<lambda>(n, i). VariableDeclarator (Identifier n) i) ds)))
            specs src) = map (\<lambda>(n, i). Some n) ds"
  by (induction ds) auto

lemma visit_function_identifier:
  "visit (ExportNamedDeclaration (Some (FunctionDeclaration (Identifier n) ps b)) specs src) =
     [Some n]"
  by simp

lemma visit_class_identifier:
  "visit (ExportNamedDeclaration (Some (ClassDeclaration (Identifier n) s ms)) specs src) =
     [Some n]"
  by simp

lemma visit_specifier_identifiers:
  "visit (ExportNamedDeclaration None
            (map (\<lambda>(l, e). ExportSpecifier (Identifier l) (Identifier e)) ss) src) =
     map (\<lambda>(l, e). Some e) ss"
  by (induction ss) auto

lemma visit_default: "visit (ExportDefaultDeclaration (Some d)) = [Some ''default'']"
  by simp

text \<open>
  Claim C7. The claim promises each declared binding name of an exported variable
  declaration. The visitor reads \<^verbatim>\<open>decl.id.name\<close>, which a destructuring pattern does not
  have: for \<^verbatim>\<open>"use client"; export const { a, b } = obj;\<close> the recorded exports are the
  one-element list holding \<^verbatim>\<open>undefined\<close>, not \<^verbatim>\<open>a\<close> and \<^verbatim>\<open>b\<close>.
\<close>

theorem destructured_export_undefined:
  "metadata (snd (Program_ts posix_href True destructuring_module)) ''clientReferences'' =
     Some (ClientReferences \<lparr>entryPoint = ''file:///app/a.js'', exports = [None]\<rparr>)
   \<and> metadata (snd (Program_js posix_href destructuring_module)) ''clientReferences'' =
     Some (ClientReferences \<lparr>entryPoint = ''file:///app/a.js'', exports = [None]\<rparr>)"
  by (simp add: Program_ts_def Program_js_def destructuring_module_def compile_state_def
      use_client_def isUseClient_def isUseServer_def step_defs Let_def posix_href_def
      destructured_def traverse_exports_def)

section \<open>A second application\<close>

text \<open>
  Claim C8, as the code has it. The rewrite of a \<^verbatim>\<open>"use client"\<close> module clears the
  directives, so applying the visitor again to the rewritten module changes nothing:
  it returns with statements, directives and metadata as they were, whatever
  \<^verbatim>\<open>isServer\<close> is the second time.
\<close>

theorem second_pass_noop_client:
  assumes "isUseClient (node st)" and "\<not> isUseServer (node st)"
    and "filename st = Some filePath" and "filePath \<noteq> []"
  shows "directives (node (snd (Program_ts href True st))) = []
       \<and> Program_ts href isServer' (snd (Program_ts href True st)) =
           (Returned, snd (Program_ts href True st))
       \<and> directives (node (snd (Program_js href st))) = []
       \<and> Program_js href (snd (Program_js href st)) = (Returned, snd (Program_js href st))"
  using assms
  by (simp add: Program_ts_def Program_js_def step_defs Let_def isUseClient_def isUseServer_def)

theorem second_pass_noop_client_witness:
  "isUseClient (node client_module) \<and> \<not> isUseServer (node client_module)
   \<and> filename client_module = Some ''/app/a.js''
   \<and> Program_ts posix_href True (snd (Program_ts posix_href True client_module)) =
        (Returned, snd (Program_ts posix_href True client_module))
   \<and> Program_js posix_href (snd (Program_js posix_href client_module)) =
        (Returned, snd (Program_js posix_href client_module))"
  using second_pass_noop_client [OF client_module_facts, of posix_href True] client_module_facts
  by simp

text \<open>
  The claim as it was stated fails on the server boundary. The rewrite of a
  \<^verbatim>\<open>"use server"\<close> module keeps the directive, so the second application rewrites again
  and appends a second wrapper.
\<close>

theorem second_pass_counterexample:
  "fst (Program_ts posix_href True server_module) = Returned
   \<and> body (node (snd (Program_ts posix_href True server_module))) =
        doThing @ [Statement (serverReferenceWrapper ''file:///app/a.js'')]
   \<and> body (node (snd (Program_ts posix_href True (snd (Program_ts posix_href True server_module))))) =
        doThing @ [Statement (serverReferenceWrapper ''file:///app/a.js''),
                   Statement (serverReferenceWrapper ''file:///app/a.js'')]
   \<and> fst (Program_js posix_href server_module) = Returned
   \<and> body (node (snd (Program_js posix_href server_module))) =
        doThing @ [Statement (serverReferenceWrapper ''file:///app/a.js'')]
   \<and> body (node (snd (Program_js posix_href (snd (Program_js posix_href server_module))))) =
        doThing @ [Statement (serverReferenceWrapper ''file:///app/a.js''),
                   Statement (serverReferenceWrapper ''file:///app/a.js'')]"
  by (simp add: Program_ts_def Program_js_def server_module_def compile_state_def
      use_server_def isUseClient_def isUseServer_def step_defs Let_def posix_href_def)

section \<open>The two copies compared\<close>

text \<open>
  Claim C9, as the code has it. On every input the two copies end the same way (return,
  or throw the same error) and leave the same filename. When \<^verbatim>\<open>isServer\<close> holds they
  leave the same statements and directives, and the same state altogether unless the
  module has \<^verbatim>\<open>"use server"\<close> only. They differ in two ways: only the TypeScript source
  records the manifest for a \<^verbatim>\<open>"use server"\<close> module, and only the TypeScript source
  skips the rewrite when \<^verbatim>\<open>isServer\<close> does not hold: it then leaves statements and
  directives as they were.
\<close>

theorem copies_agree:
  "fst (Program_ts href isServer st) = fst (Program_js href st)
   \<and> filename (snd (Program_ts href isServer st)) = filename (snd (Program_js href st))
   \<and> node (snd (Program_ts href True st)) = node (snd (Program_js href st))
   \<and> (isUseClient (node st) \<or> \<not> isUseServer (node st) \<longrightarrow>
        Program_ts href True st = Program_js href st)
   \<and> node (snd (Program_ts href False st)) = node st"
  by (auto simp add: Program_ts_def Program_js_def step_defs Let_def split: option.split)

theorem copies_agree_witness:
  "isUseClient (node client_module)
   \<and> fst (Program_ts posix_href False client_module) = fst (Program_js posix_href client_module)
   \<and> node (snd (Program_ts posix_href True client_module)) =
       node (snd (Program_js posix_href client_module))
   \<and> Program_ts posix_href True client_module = Program_js posix_href client_module
   \<and> node (snd (Program_ts posix_href False client_module)) = node client_module"
  using copies_agree [of posix_href False client_module]
        copies_agree [of posix_href True client_module] client_module_facts(1)
  by simp

text \<open>
  The claim as it was stated fails: on a \<^verbatim>\<open>"use server"\<close> module the two copies leave
  different metadata, and without \<^verbatim>\<open>isServer\<close> the TypeScript source keeps the directives
  of a \<^verbatim>\<open>"use client"\<close> module that the compiled file clears.
\<close>

theorem copies_differ_counterexample:
  "Program_ts posix_href True server_module \<noteq> Program_js posix_href server_module
   \<and> Program_ts posix_href False client_module \<noteq> Program_js posix_href client_module"
proof -
  have "metadata (snd (Program_ts posix_href True server_module)) ''clientReferences'' \<noteq>
        metadata (snd (Program_js posix_href server_module)) ''clientReferences''"
    by (simp add: Program_ts_def Program_js_def server_module_def compile_state_def
        use_server_def isUseClient_def isUseServer_def step_defs Let_def)
  moreover have "directives (node (snd (Program_ts posix_href False client_module))) \<noteq>
        directives (node (snd (Program_js posix_href client_module)))"
    by (simp add: Program_ts_def Program_js_def client_module_def compile_state_def
        use_client_def isUseClient_def isUseServer_def step_defs Let_def)
  ultimately show ?thesis by metis
qed

section \<open>The missing filename\<close>

text \<open>
  Claim C10, as the code has it. When the filename is not set (or is the empty string)
  and the module does not carry both directives, the visitor throws the filename error
  and leaves the state alone; this includes the module with neither directive, since
  the check comes before the early return. With both directives the conflict error is
  thrown first.
\<close>

theorem missing_filename_throws:
  assumes "filename st = None \<or> filename st = Some []"
    and "\<not> (isUseClient (node st) \<and> isUseServer (node st))"
  shows "Program_ts href isServer st = (Threw (Error filename_message), st)
       \<and> Program_js href st = (Threw (Error filename_message), st)"
  using assms
  by (auto simp add: Program_ts_def Program_js_def)

theorem missing_filename_throws_witness:
  "(filename (plain_module\<lparr>filename := None\<rparr>) = None
      \<or> filename (plain_module\<lparr>filename := None\<rparr>) = Some [])
   \<and> \<not> (isUseClient (node (plain_module\<lparr>filename := None\<rparr>))
          \<and> isUseServer (node (plain_module\<lparr>filename := None\<rparr>)))
   \<and> Program_ts posix_href True (plain_module\<lparr>filename := None\<rparr>) =
        (Threw (Error filename_message), plain_module\<lparr>filename := None\<rparr>)
   \<and> Program_js posix_href (plain_module\<lparr>filename := None\<rparr>) =
        (Threw (Error filename_message), plain_module\<lparr>filename := None\<rparr>)"
proof -
  have f: "filename (plain_module\<lparr>filename := None\<rparr>) = None
             \<or> filename (plain_module\<lparr>filename := None\<rparr>) = Some []"
    by simp
  have d: "\<not> (isUseClient (node (plain_module\<lparr>filename := None\<rparr>))
                \<and> isUseServer (node (plain_module\<lparr>filename := None\<rparr>)))"
    using plain_module_facts by simp
  show ?thesis
    using missing_filename_throws [OF f d, of posix_href True] f d by simp
qed

text \<open>
  The claim as it was stated fails on a module without a filename that carries both
  directives: the error thrown is the conflict error.
\<close>

theorem missing_filename_counterexample:
  "filename conflicting_module = None
   \<and> Program_ts posix_href True conflicting_module =
        (Threw (CodeFrameError None conflict_message), conflicting_module)
   \<and> Program_js posix_href conflicting_module =
        (Threw (CodeFrameError None conflict_message), conflicting_module)
   \<and> CodeFrameError None conflict_message \<noteq> Error filename_message"
  by (simp add: Program_ts_def Program_js_def conflicting_module_def compile_state_def
      use_client_def use_server_def isUseClient_def isUseServer_def buildCodeFrameError_def)

end
